theory Spec2Isabelle
  imports Main
begin

section \<open>Python values, exceptions and name resolution\<close>

text \<open>
  The two hook classes of \<^verbatim>\<open>providers/pagerduty/hooks\<close> (\<^verbatim>\<open>APiV2Client.py\<close> and
  \<^verbatim>\<open>ApiClient.py\<close>) forward their arguments to a session object of the \<^verbatim>\<open>pagerduty\<close>
  library. The values that travel through them are JSON-like; \<open>PObj\<close> stands for an object
  whose contents play no role here (a module, a class, a typing construct).
\<close>

datatype pyval =
    PNone
  | PBool bool
  | PInt int
  | PStr string
  | PList "pyval list"
  | PDict "(string \<times> pyval) list"
  | PObj string

text \<open>
  Every \<^verbatim>\<open>raise\<close> of the source, and every exception the interpreter raises on its own
  while running it, is a value. \<open>AttributeError t a\<close> is Python's
  "object of type t has no attribute a". \<open>LibraryError classes m\<close> is an exception raised
  by the \<^verbatim>\<open>pagerduty\<close> library: \<open>classes\<close> are the names of its class and of that class's
  bases within the library, \<open>m\<close> is its \<^verbatim>\<open>str()\<close>. \<open>OtherError\<close> is any other exception of
  a collaborator.
\<close>

datatype exn =
    AirflowException string
  | LibraryError "string list" string
  | AttributeError string string
  | NameError string
  | KeyError string
  | TypeError string
  | OtherError string

definition then_do :: "exn + 'a \<Rightarrow> ('a \<Rightarrow> exn + 'b) \<Rightarrow> exn + 'b" where
  "then_do r f = (case r of Inl e \<Rightarrow> Inl e | Inr v \<Rightarrow> f v)"

definition with_default :: "'a \<Rightarrow> 'a option \<Rightarrow> 'a" where
  "with_default d given = (case given of None \<Rightarrow> d | Some v \<Rightarrow> v)"

fun type_name :: "pyval \<Rightarrow> string" where
  "type_name PNone = ''NoneType''"
| "type_name (PBool _) = ''bool''"
| "type_name (PInt _) = ''int''"
| "type_name (PStr _) = ''str''"
| "type_name (PList _) = ''list''"
| "type_name (PDict _) = ''dict''"
| "type_name (PObj t) = t"

text \<open>The subscript \<^verbatim>\<open>v[k]\<close> with a string key \<open>k\<close>.\<close>

fun getitem :: "string \<Rightarrow> pyval \<Rightarrow> exn + pyval" where
  "getitem k (PDict kvs) = (case map_of kvs k of None \<Rightarrow> Inl (KeyError k) | Some v \<Rightarrow> Inr v)"
| "getitem k v = Inl (TypeError (type_name v))"

text \<open>
  Attribute lookup on an instance: the attributes assigned in \<^verbatim>\<open>__init__\<close> and the names
  bound in the class body. Neither class names a base class, so nothing is inherited
  beyond \<^verbatim>\<open>object\<close>.
\<close>

definition lookup_attr :: "string \<Rightarrow> string list \<Rightarrow> string \<Rightarrow> exn + unit" where
  "lookup_attr cls attrs name =
     (if name \<in> set attrs then Inr () else Inl (AttributeError cls name))"

text \<open>
  Name lookup inside a function body: the function's own parameters and locals first,
  then the names bound at module level.
\<close>

type_synonym scope = "(string \<times> pyval) list"

definition lookup_name :: "scope \<Rightarrow> scope \<Rightarrow> string \<Rightarrow> exn + pyval" where
  "lookup_name locals globals name =
     (case map_of (locals @ globals) name of None \<Rightarrow> Inl (NameError name) | Some v \<Rightarrow> Inr v)"

text \<open>
  The names bound by the top-level statements of either module before its class
  statement: the five imports (lines 1 to 8). \<^verbatim>\<open>datetime\<close> is imported under
  \<^verbatim>\<open>TYPE_CHECKING\<close> only.
\<close>

definition module_globals :: scope where
  "module_globals =
     [(''annotations'', PObj ''_Feature''),
      (''TYPE_CHECKING'', PBool False),
      (''Any'', PObj ''_SpecialForm''),
      (''pagerduty'', PObj ''module''),
      (''AirflowException'', PObj ''type''),
      (''BaseHook'', PObj ''type'')]"

text \<open>
  The names the \<^verbatim>\<open>pagerduty\<close> package binds at its top level are not part of these
  sources, so every operation that looks one up takes them as the parameter \<open>lib\<close>.
  \<open>pagerduty_exports\<close> lists the package's clients and its four exception classes
  (\<^verbatim>\<open>Error\<close> with \<^verbatim>\<open>HttpError\<close>, \<^verbatim>\<open>ServerHttpError\<close> and \<^verbatim>\<open>UrlError\<close> below it); the
  package has no \<^verbatim>\<open>PagerDutyError\<close>.
\<close>

definition pagerduty_exports :: "string list" where
  "pagerduty_exports =
     [''ApiClient'', ''EventsApiV2Client'', ''RestApiV2Client'',
      ''Error'', ''HttpError'', ''ServerHttpError'', ''UrlError'']"

section \<open>The library session and the adapter state\<close>

text \<open>
  A call that leaves the adapter for the library. A session is what the library answers
  to each call: a response, or a raised exception. Every operation returns its result
  together with the calls it sent out, in order.
\<close>

datatype call =
    Call_post_event pyval
  | Call_acknowledge_event string
  | Call_resolve_event string
  | Call_send_event pyval string "string option"
  | Call_request pyval pyval pyval pyval pyval "(string \<times> pyval) list"

type_synonym api_session = "call \<Rightarrow> exn + pyval"

type_synonym 'a outcome = "(exn + 'a) \<times> call list"

text \<open>
  The instance attributes \<^verbatim>\<open>self.integration_key\<close> and \<^verbatim>\<open>self._session\<close>; both start as
  \<^verbatim>\<open>None\<close>.
\<close>

record client =
  integration_key :: "string option"
  priv_session :: "api_session option"

text \<open>
  The credential store behind \<^verbatim>\<open>get_connection(conn_id).get_password()\<close>: it raises, or
  returns a password that may be \<^verbatim>\<open>None\<close>.
\<close>

type_synonym cred_store = "string \<Rightarrow> exn + string option"

definition no_token_message :: string where
  "no_token_message =
     ''Cannot get token: No valid integration key nor pagerduty_events_conn_id supplied.''"

section \<open>\<^verbatim>\<open>EventsAPiV2Client\<close>\<close>

definition EventsAPiV2Client_attrs :: "string list" where
  "EventsAPiV2Client_attrs =
     [''integration_key'', ''_session'',
      ''__init__'', ''acknowledge_event'', ''post_event'', ''prepare_headers'',
      ''resolve_event'', ''send_change_event'', ''send_event'', ''submit_event'',
      ''trigger_event'']"

text \<open>
  \<^verbatim>\<open>__init__\<close>, lines 19 to 34, shared word for word by both classes. \<open>cls\<close> and \<open>attrs\<close>
  are the class whose instance \<^verbatim>\<open>self\<close> is; \<open>integration_key_arg\<close> is the parameter
  \<^verbatim>\<open>integration_key\<close>.
\<close>

definition init_body ::
  "string \<Rightarrow> string list \<Rightarrow> cred_store \<Rightarrow> string option \<Rightarrow> string option \<Rightarrow> exn + client" where
  "init_body cls attrs store integration_key_arg pagerduty_events_conn_id =
     (let self = \<lparr>integration_key = None, priv_session = None\<rparr> in
      then_do
        (case pagerduty_events_conn_id of
           None \<Rightarrow> Inr self
         | Some conn_id \<Rightarrow>
             then_do (lookup_attr cls attrs ''get_connection'') (\<lambda>_.
             then_do (store conn_id) (\<lambda>password.
             Inr (self\<lparr>integration_key := password\<rparr>))))
        (\<lambda>self.
           let self = (case integration_key_arg of
                         None \<Rightarrow> self
                       | Some k \<Rightarrow> self\<lparr>integration_key := Some k\<rparr>)
           in if integration_key self = None
              then Inl (AirflowException no_token_message)
              else Inr self))"

definition EventsAPiV2Client_init ::
  "cred_store \<Rightarrow> string option \<Rightarrow> string option \<Rightarrow> exn + client" where
  "EventsAPiV2Client_init = init_body ''EventsAPiV2Client'' EventsAPiV2Client_attrs"

text \<open>
  \<^verbatim>\<open>self._session.<name>(...)\<close>: the attribute is looked up on \<^verbatim>\<open>self._session\<close> first, and
  \<^verbatim>\<open>None\<close> has no such attribute; otherwise the call goes out.
\<close>

definition session_call :: "client \<Rightarrow> string \<Rightarrow> call \<Rightarrow> pyval outcome" where
  "session_call self name c =
     (case priv_session self of
        None \<Rightarrow> (Inl (AttributeError ''NoneType'' name), [])
      | Some sess \<Rightarrow> (sess c, [c]))"

text \<open>
  \<^verbatim>\<open>except pagerduty.PagerDutyError as e: raise AirflowException(f"<prefix>{e}") from e\<close>.
  The expression \<^verbatim>\<open>pagerduty.PagerDutyError\<close> is evaluated when an exception, of whatever
  kind, arrives at the clause and not before. If the library has no such attribute, the
  \<^verbatim>\<open>AttributeError\<close> of that lookup leaves in place of the exception that arrived.
  Otherwise an instance of the class is translated and every other exception passes.
\<close>

definition translate :: "string list \<Rightarrow> string \<Rightarrow> exn + 'a \<Rightarrow> exn + 'a" where
  "translate lib prefix r =
     (case r of
        Inr v \<Rightarrow> Inr v
      | Inl e \<Rightarrow>
          (case lookup_attr ''module'' lib ''PagerDutyError'' of
             Inl missing \<Rightarrow> Inl missing
           | Inr _ \<Rightarrow>
               (case e of
                  LibraryError classes m \<Rightarrow>
                    if ''PagerDutyError'' \<in> set classes
                    then Inl (AirflowException (prefix @ m))
                    else Inl e
                | _ \<Rightarrow> Inl e)))"

definition acknowledge_event :: "string list \<Rightarrow> client \<Rightarrow> string \<Rightarrow> pyval outcome" where
  "acknowledge_event lib self event_id =
     (let (r, calls) = session_call self ''acknowledge_event'' (Call_acknowledge_event event_id)
      in (translate lib ''Failed to acknowledge event: '' (then_do r (\<lambda>_. Inr PNone)), calls))"

definition post_event :: "string list \<Rightarrow> client \<Rightarrow> pyval \<Rightarrow> pyval outcome" where
  "post_event lib self payload =
     (let (r, calls) = session_call self ''post_event'' (Call_post_event payload)
      in (translate lib ''Failed to post event: ''
            (then_do r (\<lambda>response. then_do (getitem ''event'' response) (getitem ''id''))),
          calls))"

text \<open>The f-string \<^verbatim>\<open>{self.integration_key}\<close> prints \<^verbatim>\<open>None\<close> as the word None.\<close>

definition format_key :: "string option \<Rightarrow> string" where
  "format_key k = (case k of None \<Rightarrow> ''None'' | Some s \<Rightarrow> s)"

definition prepare_headers :: "client \<Rightarrow> (string \<times> string) list" where
  "prepare_headers self =
     [(''Authorization'', ''Token token='' @ format_key (integration_key self)),
      (''Content-Type'', ''application/json'')]"

definition resolve_event :: "string list \<Rightarrow> client \<Rightarrow> string \<Rightarrow> pyval outcome" where
  "resolve_event lib self event_id =
     (let (r, calls) = session_call self ''resolve_event'' (Call_resolve_event event_id)
      in (translate lib ''Failed to resolve event: '' (then_do r (\<lambda>_. Inr PNone)), calls))"

text \<open>\<open>event_type\<close> left out by the caller is \<^verbatim>\<open>"trigger"\<close>.\<close>

definition send_change_event ::
  "string list \<Rightarrow> client \<Rightarrow> pyval \<Rightarrow> string option \<Rightarrow> string option \<Rightarrow> pyval outcome" where
  "send_change_event lib self payload event_type_arg routing_key_arg =
     (let event_type = with_default ''trigger'' event_type_arg;
          routing_key = (if routing_key_arg = None then integration_key self
                         else routing_key_arg);
          (r, calls) = session_call self ''send_event''
                         (Call_send_event payload event_type routing_key)
      in (translate lib ''Failed to send change event: ''
            (then_do r (\<lambda>response. then_do (getitem ''event'' response) (getitem ''id''))),
          calls))"

text \<open>
  The keyword arguments of \<^verbatim>\<open>send_event\<close>, \<^verbatim>\<open>submit_event\<close> and \<^verbatim>\<open>trigger_event\<close> as the
  caller gives them: \<open>action = None\<close> is the keyword left out, which each of the three
  signatures fills with \<^verbatim>\<open>"trigger"\<close>; the other optional ones default to \<^verbatim>\<open>None\<close>.
\<close>

record event_kwargs =
  summary :: string
  severity :: string
  source :: string
  custom_details :: "pyval option"
  component :: "string option"
  group_name :: "string option"
  class_type :: "string option"
  action :: "string option"
  dedup_key :: "string option"
  images :: "pyval option"
  links :: "pyval option"

definition bind_defaults :: "event_kwargs \<Rightarrow> event_kwargs" where
  "bind_defaults a = a\<lparr>action := Some (with_default ''trigger'' (action a))\<rparr>"

text \<open>
  The attributes found on \<^verbatim>\<open>self\<close> inside a method: those of the class as written, and
  \<open>extra\<close>, the names that a subclass of which \<^verbatim>\<open>self\<close> is an instance adds. A direct
  instance of the class has \<open>extra = []\<close>.
\<close>

definition instance_attrs :: "string list \<Rightarrow> string list" where
  "instance_attrs extra = EventsAPiV2Client_attrs @ extra"

text \<open>
  \<^verbatim>\<open>send_event\<close>, lines 103 to 146. \<^verbatim>\<open>self.prepare_payload\<close> is resolved before its
  arguments are evaluated. The class defines no such method; \<open>prepare_payload\<close> is what
  the attribute does where \<open>extra\<close> provides it.
\<close>

type_synonym payload_builder = "event_kwargs \<Rightarrow> exn + pyval"

definition send_event ::
  "string list \<Rightarrow> string list \<Rightarrow> payload_builder \<Rightarrow> client \<Rightarrow> event_kwargs \<Rightarrow> pyval outcome" where
  "send_event lib extra prepare_payload self kwargs =
     (let a = bind_defaults kwargs in
      case then_do (lookup_attr ''EventsAPiV2Client'' (instance_attrs extra) ''prepare_payload'')
             (\<lambda>_. prepare_payload a) of
        Inl e \<Rightarrow> (Inl e, [])
      | Inr payload \<Rightarrow> post_event lib self payload)"

text \<open>
  \<^verbatim>\<open>submit_event\<close> and \<^verbatim>\<open>trigger_event\<close>, lines 148 to 234: each resolves
  \<^verbatim>\<open>self.send_event\<close> and passes its eleven parameters on by keyword.
\<close>

definition submit_event ::
  "string list \<Rightarrow> string list \<Rightarrow> payload_builder \<Rightarrow> client \<Rightarrow> event_kwargs \<Rightarrow> pyval outcome" where
  "submit_event lib extra prepare_payload self kwargs =
     (let a = bind_defaults kwargs in
      case lookup_attr ''EventsAPiV2Client'' (instance_attrs extra) ''send_event'' of
        Inl e \<Rightarrow> (Inl e, [])
      | Inr _ \<Rightarrow> send_event lib extra prepare_payload self a)"

definition trigger_event ::
  "string list \<Rightarrow> string list \<Rightarrow> payload_builder \<Rightarrow> client \<Rightarrow> event_kwargs \<Rightarrow> pyval outcome" where
  "trigger_event lib extra prepare_payload self kwargs =
     (let a = bind_defaults kwargs in
      case lookup_attr ''EventsAPiV2Client'' (instance_attrs extra) ''send_event'' of
        Inl e \<Rightarrow> (Inl e, [])
      | Inr _ \<Rightarrow> send_event lib extra prepare_payload self a)"

text \<open>
  One public operation of an \<^verbatim>\<open>EventsAPiV2Client\<close> instance with its arguments, and a
  sequence of them run on one instance. No method body of the class assigns an attribute
  of \<^verbatim>\<open>self\<close>, so each operation hands the instance on as it received it.
\<close>

datatype op =
    Op_acknowledge_event string
  | Op_post_event pyval
  | Op_prepare_headers
  | Op_resolve_event string
  | Op_send_change_event pyval "string option" "string option"
  | Op_send_event event_kwargs
  | Op_submit_event event_kwargs
  | Op_trigger_event event_kwargs

fun exec_op ::
  "string list \<Rightarrow> string list \<Rightarrow> payload_builder \<Rightarrow> client \<Rightarrow> op \<Rightarrow> pyval outcome \<times> client" where
  "exec_op lib extra pb self (Op_acknowledge_event event_id) =
     (acknowledge_event lib self event_id, self)"
| "exec_op lib extra pb self (Op_post_event payload) = (post_event lib self payload, self)"
| "exec_op lib extra pb self Op_prepare_headers =
     ((Inr (PDict (map (\<lambda>(k, v). (k, PStr v)) (prepare_headers self))), []), self)"
| "exec_op lib extra pb self (Op_resolve_event event_id) =
     (resolve_event lib self event_id, self)"
| "exec_op lib extra pb self (Op_send_change_event payload event_type routing_key) =
     (send_change_event lib self payload event_type routing_key, self)"
| "exec_op lib extra pb self (Op_send_event kwargs) = (send_event lib extra pb self kwargs, self)"
| "exec_op lib extra pb self (Op_submit_event kwargs) =
     (submit_event lib extra pb self kwargs, self)"
| "exec_op lib extra pb self (Op_trigger_event kwargs) =
     (trigger_event lib extra pb self kwargs, self)"

fun run ::
  "string list \<Rightarrow> string list \<Rightarrow> payload_builder \<Rightarrow> client \<Rightarrow> op list
     \<Rightarrow> pyval outcome list \<times> client" where
  "run lib extra pb self [] = ([], self)"
| "run lib extra pb self (x # xs) =
     (let (out, self1) = exec_op lib extra pb self x;
          (outs, self2) = run lib extra pb self1 xs
      in (out # outs, self2))"

text \<open>The library method that an operation reaches for on \<^verbatim>\<open>self._session\<close>, if any.\<close>

fun session_method :: "op \<Rightarrow> string option" where
  "session_method (Op_acknowledge_event _) = Some ''acknowledge_event''"
| "session_method (Op_post_event _) = Some ''post_event''"
| "session_method (Op_resolve_event _) = Some ''resolve_event''"
| "session_method (Op_send_change_event _ _ _) = Some ''send_event''"
| "session_method _ = None"

text \<open>
  The exception with which such an operation leaves when \<^verbatim>\<open>self._session\<close> is \<^verbatim>\<open>None\<close>: the
  \<^verbatim>\<open>AttributeError\<close> of the lookup on \<^verbatim>\<open>None\<close> arrives at the \<^verbatim>\<open>except\<close> clause, which
  lets it pass if the library has the class it names and replaces it if not.
\<close>

definition no_session_error :: "string list \<Rightarrow> string \<Rightarrow> exn" where
  "no_session_error lib name =
     (if ''PagerDutyError'' \<in> set lib then AttributeError ''NoneType'' name
      else AttributeError ''module'' ''PagerDutyError'')"

section \<open>\<^verbatim>\<open>ApiClient\<close>\<close>

text \<open>
  The names the class body binds with a value, and the two instance attributes. The bare
  annotations \<^verbatim>\<open>stagger_cooldown: float\<close> and \<^verbatim>\<open>trunc_key: str\<close> bind nothing.
\<close>

definition ApiClient_attrs :: "string list" where
  "ApiClient_attrs =
     [''integration_key'', ''_session'',
      ''__init__'', ''after_set_api_key'', ''api_key'', ''auth_header'', ''log'',
      ''max_http_attempts'', ''max_network_attempts'', ''normalize_params'',
      ''normalize_url'', ''parent'', ''permitted_methods'', ''postprocess'',
      ''prepare_headers'', ''print_debug'', ''request'', ''retry'', ''sleep_timer'',
      ''sleep_timer_base'', ''timeout'']"

definition ApiClient_init ::
  "cred_store \<Rightarrow> string option \<Rightarrow> string option \<Rightarrow> exn + client" where
  "ApiClient_init = init_body ''ApiClient'' ApiClient_attrs"

definition permitted_methods :: "string list" where
  "permitted_methods = [''GET'', ''POST'', ''PUT'', ''DELETE'', ''PATCH'']"

text \<open>
  \<^verbatim>\<open>def prepare_headers(method, user_headers={})\<close>, lines 88 to 90: the second parameter
  comes back as it is. Called as \<^verbatim>\<open>self.prepare_headers()\<close>, \<open>method\<close> is the instance and
  \<open>user_headers\<close> is left out.
\<close>

definition ApiClient_prepare_headers ::
  "'m \<Rightarrow> (string \<times> string) list option \<Rightarrow> (string \<times> string) list" where
  "ApiClient_prepare_headers method user_headers_arg =
     (let user_headers = with_default [] user_headers_arg in user_headers)"

text \<open>
  The class statement of \<^verbatim>\<open>ApiClient\<close> runs its body once, when the module is loaded.
  Line 101, \<^verbatim>\<open>log = logging.NOTSET\<close>, stands at class level, after the names below have
  been bound in the class namespace; it looks \<^verbatim>\<open>logging\<close> up there and then at module
  level. Nothing else in the body can fail, so the class exists exactly if that lookup
  succeeds. The body of \<^verbatim>\<open>EventsAPiV2Client\<close> holds function definitions only.
\<close>

definition ApiClient_class_namespace :: scope where
  "ApiClient_class_namespace =
     map (\<lambda>n. (n, PObj ''attribute''))
       [''__init__'', ''after_set_api_key'', ''api_key'', ''auth_header'', ''log'',
        ''max_http_attempts'', ''max_network_attempts'', ''normalize_params'',
        ''normalize_url'', ''parent'', ''permitted_methods'', ''postprocess'',
        ''prepare_headers'', ''print_debug'']"

definition ApiClient_class_statement :: "scope \<Rightarrow> exn + unit" where
  "ApiClient_class_statement globals =
     then_do (lookup_name ApiClient_class_namespace globals ''logging'') (\<lambda>_. Inr ())"




text \<open>
  \<^verbatim>\<open>def request(method, url, **kwargs)\<close>, lines 103 to 114, has neither \<^verbatim>\<open>self\<close> nor
  \<^verbatim>\<open>cls\<close>. \<open>bind_request\<close> binds the positional and named arguments of a call to the two
  parameters and \<^verbatim>\<open>**kwargs\<close>, as the interpreter does before the body runs: too many
  positional arguments, a missing one, or one given twice is a \<^verbatim>\<open>TypeError\<close>.
\<close>

definition bind_request ::
  "pyval list \<Rightarrow> (string \<times> pyval) list
     \<Rightarrow> exn + (pyval \<times> pyval \<times> (string \<times> pyval) list)" where
  "bind_request positional named =
     (let given = map fst named;
          others = filter (\<lambda>(k, v). k \<noteq> ''method'' \<and> k \<noteq> ''url'') named
      in case positional of
           [] \<Rightarrow>
             (case map_of named ''method'' of
                None \<Rightarrow> Inl (TypeError ''missing argument'')
              | Some m \<Rightarrow>
                  (case map_of named ''url'' of
                     None \<Rightarrow> Inl (TypeError ''missing argument'')
                   | Some u \<Rightarrow> Inr (m, u, others)))
         | [m] \<Rightarrow>
             if ''method'' \<in> set given then Inl (TypeError ''multiple values'')
             else (case map_of named ''url'' of
                     None \<Rightarrow> Inl (TypeError ''missing argument'')
                   | Some u \<Rightarrow> Inr (m, u, others))
         | [m, u] \<Rightarrow>
             if ''method'' \<in> set given \<or> ''url'' \<in> set given
             then Inl (TypeError ''multiple values'')
             else Inr (m, u, others)
         | _ \<Rightarrow> Inl (TypeError ''too many positional arguments''))"

text \<open>
  The body, line 113. Its local names are the three parameters. The callee
  \<^verbatim>\<open>self._session.request\<close> is evaluated first, then the arguments from left to right;
  a keyword of \<^verbatim>\<open>**kwargs\<close> that repeats \<^verbatim>\<open>params\<close>, \<^verbatim>\<open>data\<close> or \<^verbatim>\<open>headers\<close> is a
  \<^verbatim>\<open>TypeError\<close>; then the call goes out. \<open>session_of\<close> gives the session behind
  \<^verbatim>\<open>._session.request\<close> of the object that the name \<^verbatim>\<open>self\<close> is bound to, if it has one.
\<close>

definition ApiClient_request ::
  "(pyval \<Rightarrow> api_session option) \<Rightarrow> scope \<Rightarrow> pyval \<Rightarrow> pyval \<Rightarrow> (string \<times> pyval) list
     \<Rightarrow> pyval outcome" where
  "ApiClient_request session_of globals method url kwargs =
     (let locals = [(''method'', method), (''url'', url), (''kwargs'', PDict kwargs)];
          name = lookup_name locals globals
      in case then_do (name ''self'') (\<lambda>self.
              then_do (case session_of self of
                         None \<Rightarrow> Inl (AttributeError (type_name self) ''_session'')
                       | Some sess \<Rightarrow> Inr sess) (\<lambda>sess.
              then_do (name ''method'') (\<lambda>m.
              then_do (name ''url'') (\<lambda>u.
              then_do (name ''params'') (\<lambda>params.
              then_do (name ''data'') (\<lambda>data.
              then_do (name ''headers'') (\<lambda>headers.
              then_do (name ''kwargs'') (\<lambda>_.
              if ''params'' \<in> set (map fst kwargs) \<or> ''data'' \<in> set (map fst kwargs)
                 \<or> ''headers'' \<in> set (map fst kwargs)
              then Inl (TypeError ''multiple values'')
              else Inr (sess, Call_request m u params data headers kwargs))))))))) of
           Inl e \<Rightarrow> (Inl e, [])
         | Inr (sess, c) \<Rightarrow> (sess c, [c]))"

text \<open>
  A call of \<^verbatim>\<open>request\<close>, through the class (\<^verbatim>\<open>ApiClient.request(...)\<close>) or through an
  instance, which then comes first among the positional arguments. \<open>attempt_request\<close> is
  the call in a program: the class statement has to have run before there is a function
  to call.
\<close>

datatype receiver = Through_class | Through_instance

definition request_call ::
  "(pyval \<Rightarrow> api_session option) \<Rightarrow> scope \<Rightarrow> receiver \<Rightarrow> pyval list \<Rightarrow> (string \<times> pyval) list
     \<Rightarrow> pyval outcome" where
  "request_call session_of globals via positional named =
     (case bind_request
             (case via of
                Through_class \<Rightarrow> positional
              | Through_instance \<Rightarrow> PObj ''ApiClient'' # positional)
             named of
        Inl e \<Rightarrow> (Inl e, [])
      | Inr (method, url, kwargs) \<Rightarrow> ApiClient_request session_of globals method url kwargs)"

definition attempt_request ::
  "(pyval \<Rightarrow> api_session option) \<Rightarrow> scope \<Rightarrow> receiver \<Rightarrow> pyval list \<Rightarrow> (string \<times> pyval) list
     \<Rightarrow> pyval outcome" where
  "attempt_request session_of globals via positional named =
     (case ApiClient_class_statement globals of
        Inl e \<Rightarrow> (Inl e, [])
      | Inr _ \<Rightarrow> request_call session_of globals via positional named)"

section \<open>Collaborators for the examples\<close>

text \<open>
  A credential store that knows one connection, \<^verbatim>\<open>pagerduty_default\<close> with password
  \<^verbatim>\<open>secret\<close>. A session that answers every call with the identifier \<^verbatim>\<open>E1\<close>, and one in
  which every call raises the library's \<^verbatim>\<open>Error\<close> with message \<^verbatim>\<open>boom\<close>. A payload
  builder that a subclass might provide. A module scope in which \<^verbatim>\<open>logging\<close> and the four
  free names of the body of \<^verbatim>\<open>request\<close> are bound, with the session behind each object.
\<close>

definition one_connection :: cred_store where
  "one_connection conn_id =
     (if conn_id = ''pagerduty_default'' then Inr (Some ''secret'')
      else Inl (OtherError ''AirflowNotFoundException''))"

definition answering_session :: api_session where
  "answering_session c = Inr (PDict [(''event'', PDict [(''id'', PStr ''E1'')])])"

definition failing_session :: api_session where
  "failing_session c = Inl (LibraryError [''Error''] ''boom'')"

definition flat_payload :: payload_builder where
  "flat_payload a =
     Inr (PDict
       ([(''summary'', PStr (summary a)), (''severity'', PStr (severity a)),
         (''source'', PStr (source a))]
        @ (case dedup_key a of None \<Rightarrow> [] | Some k \<Rightarrow> [(''dedup_key'', PStr k)])
        @ (case action a of None \<Rightarrow> [] | Some v \<Rightarrow> [(''action'', PStr v)])))"

definition no_session_of :: "pyval \<Rightarrow> api_session option" where
  "no_session_of v = None"

definition answering_session_of :: "pyval \<Rightarrow> api_session option" where
  "answering_session_of v = Some answering_session"

definition bound_scope :: scope where
  "bound_scope =
     module_globals @
     [(''logging'', PObj ''module''), (''self'', PObj ''ApiClient''), (''params'', PNone),
      (''data'', PNone), (''headers'', PDict [])]"

definition disk_full :: event_kwargs where
  "disk_full =
     \<lparr>summary = ''disk full'', severity = ''critical'', source = ''host1'',
      custom_details = None, component = None, group_name = None, class_type = None,
      action = None, dedup_key = Some ''d1'', images = None, links = None\<rparr>"

section \<open>Results about \<^verbatim>\<open>post_event\<close>\<close>

lemma then_do_simps [simp]:
  "then_do (Inl e) f = Inl e"
  "then_do (Inr v) f = f v"
  by (simp_all add: then_do_def)

lemma translate_result [simp]: "translate lib prefix (Inr v) = Inr v"
  by (simp add: translate_def)

lemma translate_class_missing:
  "''PagerDutyError'' \<notin> set lib \<Longrightarrow>
   translate lib prefix (Inl e) = Inl (AttributeError ''module'' ''PagerDutyError'')"
  by (simp add: translate_def lookup_attr_def)

lemma translate_no_session:
  "translate lib prefix (Inl (AttributeError ''NoneType'' name)) = Inl (no_session_error lib name)"
  by (simp add: translate_def lookup_attr_def no_session_error_def)

lemma pagerduty_has_no_PagerDutyError: "''PagerDutyError'' \<notin> set pagerduty_exports"
  by (simp add: pagerduty_exports_def)

lemma post_event_with_session:
  "priv_session self = Some sess \<Longrightarrow>
   post_event lib self payload =
     (translate lib ''Failed to post event: ''
        (then_do (sess (Call_post_event payload))
           (\<lambda>response. then_do (getitem ''event'' response) (getitem ''id''))),
      [Call_post_event payload])"
  by (simp add: post_event_def session_call_def)

lemma post_event_translates_where_class_exists:
  assumes "priv_session self = Some sess"
    and "sess (Call_post_event payload) = Inl (LibraryError classes m)"
    and "''PagerDutyError'' \<in> set lib" and "''PagerDutyError'' \<in> set classes"
  shows "fst (post_event lib self payload) = Inl (AirflowException (''Failed to post event: '' @ m))"
  using assms by (simp add: post_event_with_session translate_def lookup_attr_def)

text \<open>
  C5. For every payload, when the call to the library's \<^verbatim>\<open>post_event\<close> succeeds and returns
  the response \<^verbatim>\<open>{"event": {"id": "E1"}}\<close>, \<^verbatim>\<open>post_event(payload)\<close> returns the string
  \<^verbatim>\<open>"E1"\<close>, having sent exactly that one call.
\<close>

theorem post_event_returns_id:
  assumes "priv_session self = Some sess"
    and "sess (Call_post_event payload) = Inr (PDict [(''event'', PDict [(''id'', PStr ''E1'')])])"
  shows "post_event lib self payload = (Inr (PStr ''E1''), [Call_post_event payload])"
  using assms by (simp add: post_event_with_session)

theorem post_event_returns_id_witness:
  "priv_session \<lparr>integration_key = Some ''k'', priv_session = Some answering_session\<rparr>
     = Some answering_session
   \<and> answering_session (Call_post_event (PDict [(''summary'', PStr ''disk full'')]))
     = Inr (PDict [(''event'', PDict [(''id'', PStr ''E1'')])])
   \<and> post_event pagerduty_exports
       \<lparr>integration_key = Some ''k'', priv_session = Some answering_session\<rparr>
       (PDict [(''summary'', PStr ''disk full'')])
     = (Inr (PStr ''E1''), [Call_post_event (PDict [(''summary'', PStr ''disk full'')])])"
  using post_event_returns_id
    [of "\<lparr>integration_key = Some ''k'', priv_session = Some answering_session\<rparr>"
        answering_session "PDict [(''summary'', PStr ''disk full'')]" pagerduty_exports]
  by (simp add: answering_session_def)

text \<open>
  C6 (the code at the input where the claim fails). On an instance whose session raises the
  library's error with message \<^verbatim>\<open>"boom"\<close>, \<^verbatim>\<open>post_event(payload)\<close> sends the call and then
  leaves with the \<^verbatim>\<open>AttributeError\<close> of looking \<^verbatim>\<open>PagerDutyError\<close> up in the library, which
  has no class of that name: no \<^verbatim>\<open>AirflowException\<close> is raised and the message \<^verbatim>\<open>"boom"\<close>
  is lost.
\<close>

theorem post_event_loses_library_error:
  "post_event pagerduty_exports
     \<lparr>integration_key = Some ''k'', priv_session = Some failing_session\<rparr> payload
     = (Inl (AttributeError ''module'' ''PagerDutyError''), [Call_post_event payload])"
  by (simp add: post_event_with_session failing_session_def
      translate_class_missing [OF pagerduty_has_no_PagerDutyError])

section \<open>Construction\<close>

lemma lookup_get_connection:
  "lookup_attr ''EventsAPiV2Client'' EventsAPiV2Client_attrs ''get_connection''
     = Inl (AttributeError ''EventsAPiV2Client'' ''get_connection'')"
  "lookup_attr ''ApiClient'' ApiClient_attrs ''get_connection''
     = Inl (AttributeError ''ApiClient'' ''get_connection'')"
  by (simp_all add: lookup_attr_def EventsAPiV2Client_attrs_def ApiClient_attrs_def)

lemma init_body_explicit_only:
  "init_body cls attrs store (Some k) None = Inr \<lparr>integration_key = Some k, priv_session = None\<rparr>"
  by (simp add: init_body_def)

lemma init_body_nothing_given:
  "init_body cls attrs store None None = Inl (AirflowException no_token_message)"
  by (simp add: init_body_def)

lemma init_body_result:
  assumes "init_body cls attrs store key conn_id = Inr self"
  shows "priv_session self = None \<and> integration_key self \<noteq> None"
proof (cases "then_do
        (case conn_id of
           None \<Rightarrow> Inr \<lparr>integration_key = None, priv_session = None\<rparr>
         | Some c \<Rightarrow>
             then_do (lookup_attr cls attrs ''get_connection'') (\<lambda>_.
             then_do (store c) (\<lambda>password.
             Inr (\<lparr>integration_key = None, priv_session = None\<rparr>\<lparr>integration_key := password\<rparr>))))
        (Inr :: client \<Rightarrow> exn + client)")
  case (Inl e)
  with assms show ?thesis
    by (auto simp: init_body_def then_do_def split: option.splits sum.splits)
next
  case (Inr s)
  then have "priv_session s = None"
    by (auto simp: then_do_def split: option.splits sum.splits)
  with assms Inr show ?thesis
    by (auto simp: init_body_def then_do_def split: option.splits sum.splits if_splits)
qed

lemma ApiClient_class_statement_raises:
  "ApiClient_class_statement module_globals = Inl (NameError ''logging'')"
  by (simp add: ApiClient_class_statement_def ApiClient_class_namespace_def lookup_name_def
      module_globals_def)


text \<open>
  C1 (the code at the inputs where the claim fails). Whenever a connection id is given,
  with or without an explicit key, \<^verbatim>\<open>__init__\<close> of either class stops at
  \<^verbatim>\<open>self.get_connection\<close> with an \<^verbatim>\<open>AttributeError\<close>: the credential store is never asked
  and no instance comes back.
\<close>

theorem init_with_conn_id_raises:
  "EventsAPiV2Client_init store key (Some conn_id)
     = Inl (AttributeError ''EventsAPiV2Client'' ''get_connection'')
   \<and> ApiClient_init store key (Some conn_id)
     = Inl (AttributeError ''ApiClient'' ''get_connection'')"
  by (simp add: EventsAPiV2Client_init_def ApiClient_init_def init_body_def
      lookup_get_connection)

text \<open>
  C2 as stated fails: an explicit key that is the empty string is no usable token, yet it
  passes the \<^verbatim>\<open>is not None\<close> tests and construction returns an instance holding it.
\<close>

theorem init_accepts_empty_key:
  "EventsAPiV2Client_init one_connection (Some []) None
     = Inr \<lparr>integration_key = Some [], priv_session = None\<rparr>"
  by (simp add: EventsAPiV2Client_init_def init_body_explicit_only)

text \<open>
  C2, amended. When neither an explicit key nor a connection id is given (both are
  \<^verbatim>\<open>None\<close>), construction of an \<^verbatim>\<open>EventsAPiV2Client\<close> fails with \<^verbatim>\<open>AirflowException\<close>, the
  code's configuration error, and produces no instance. When an explicit key is given
  and no connection id, construction returns an instance holding that key, whatever
  string it is, the empty one included.
\<close>

theorem init_without_inputs_raises:
  "EventsAPiV2Client_init store None None = Inl (AirflowException no_token_message)
   \<and> EventsAPiV2Client_init store (Some k) None
       = Inr \<lparr>integration_key = Some k, priv_session = None\<rparr>"
  by (simp add: EventsAPiV2Client_init_def init_body_nothing_given init_body_explicit_only)

section \<open>Sending events\<close>

lemma lookup_prepare_payload:
  "lookup_attr ''EventsAPiV2Client'' (instance_attrs []) ''prepare_payload''
     = Inl (AttributeError ''EventsAPiV2Client'' ''prepare_payload'')"
  by (simp add: lookup_attr_def instance_attrs_def EventsAPiV2Client_attrs_def)

lemma lookup_send_event:
  "lookup_attr ''EventsAPiV2Client'' (instance_attrs extra) ''send_event'' = Inr ()"
  by (simp add: lookup_attr_def instance_attrs_def EventsAPiV2Client_attrs_def)

lemma bind_defaults_idem: "bind_defaults (bind_defaults a) = bind_defaults a"
  by (simp add: bind_defaults_def with_default_def)

lemma send_event_bind_defaults:
  "send_event lib extra pb self (bind_defaults a) = send_event lib extra pb self a"
  by (simp add: send_event_def bind_defaults_idem)

text \<open>
  C3 (the code at every input). On an instance of the class, \<^verbatim>\<open>send_event\<close> stops at
  \<^verbatim>\<open>self.prepare_payload\<close> with an \<^verbatim>\<open>AttributeError\<close>, whatever the arguments and whatever
  the session: no payload is built and nothing is forwarded to \<^verbatim>\<open>post_event\<close>.
\<close>

theorem send_event_raises:
  "send_event lib [] pb self kwargs
     = (Inl (AttributeError ''EventsAPiV2Client'' ''prepare_payload''), [])"
  by (simp add: send_event_def lookup_prepare_payload)

text \<open>
  C4. For every instance and every argument tuple, \<^verbatim>\<open>submit_event\<close> and \<^verbatim>\<open>trigger_event\<close>
  have the outcome of \<^verbatim>\<open>send_event\<close> on the same arguments: the same result or failure
  and the same outbound calls, hence the same payloads. This holds whatever
  \<^verbatim>\<open>self.prepare_payload\<close> resolves to: on an instance of the class as written, where all
  three fail at that lookup, and on one that has the method, where a payload goes out.
\<close>

theorem aliases_equal_send_event:
  "submit_event lib extra pb self kwargs = send_event lib extra pb self kwargs
   \<and> trigger_event lib extra pb self kwargs = send_event lib extra pb self kwargs"
  by (simp add: submit_event_def trigger_event_def lookup_send_event send_event_bind_defaults)

theorem aliases_equal_send_event_witness:
  "send_event pagerduty_exports [''prepare_payload''] flat_payload
       \<lparr>integration_key = Some ''k'', priv_session = Some answering_session\<rparr> disk_full
     = (Inr (PStr ''E1''),
        [Call_post_event (PDict [(''summary'', PStr ''disk full''),
           (''severity'', PStr ''critical''), (''source'', PStr ''host1''),
           (''dedup_key'', PStr ''d1''), (''action'', PStr ''trigger'')])])
   \<and> submit_event pagerduty_exports [''prepare_payload''] flat_payload
       \<lparr>integration_key = Some ''k'', priv_session = Some answering_session\<rparr> disk_full
     = (Inr (PStr ''E1''),
        [Call_post_event (PDict [(''summary'', PStr ''disk full''),
           (''severity'', PStr ''critical''), (''source'', PStr ''host1''),
           (''dedup_key'', PStr ''d1''), (''action'', PStr ''trigger'')])])
   \<and> trigger_event pagerduty_exports [''prepare_payload''] flat_payload
       \<lparr>integration_key = Some ''k'', priv_session = Some answering_session\<rparr> disk_full
     = (Inr (PStr ''E1''),
        [Call_post_event (PDict [(''summary'', PStr ''disk full''),
           (''severity'', PStr ''critical''), (''source'', PStr ''host1''),
           (''dedup_key'', PStr ''d1''), (''action'', PStr ''trigger'')])])"
proof -
  let ?self = "\<lparr>integration_key = Some ''k'', priv_session = Some answering_session\<rparr>"
  have found: "lookup_attr ''EventsAPiV2Client'' (instance_attrs [''prepare_payload''])
                 ''prepare_payload'' = Inr ()"
    by (simp add: lookup_attr_def instance_attrs_def)
  have sent: "send_event pagerduty_exports [''prepare_payload''] flat_payload ?self disk_full
     = (Inr (PStr ''E1''),
        [Call_post_event (PDict [(''summary'', PStr ''disk full''),
           (''severity'', PStr ''critical''), (''source'', PStr ''host1''),
           (''dedup_key'', PStr ''d1''), (''action'', PStr ''trigger'')])])"
    by (simp add: send_event_def found flat_payload_def disk_full_def bind_defaults_def
        with_default_def post_event_with_session answering_session_def)
  show ?thesis
    using sent aliases_equal_send_event
      [of pagerduty_exports "[''prepare_payload'']" flat_payload ?self disk_full]
    by simp
qed

section \<open>Headers\<close>

lemma ApiClient_prepare_headers_body:
  "ApiClient_prepare_headers m user_headers = with_default [] user_headers"
  by (simp add: ApiClient_prepare_headers_def)



section \<open>\<^verbatim>\<open>ApiClient.request\<close>\<close>

lemma attempt_in_module:
  "attempt_request session_of module_globals via positional named
     = (Inl (NameError ''logging''), [])"
  by (simp add: attempt_request_def ApiClient_class_statement_raises)





text \<open>
  What the body does with its method: either it fails before the call, on a name, on the
  missing session or on a repeated keyword, and the method plays no part; or it sends the
  method on as it came.
\<close>

lemma body_cases:
  "(\<exists>e. (\<forall>method. ApiClient_request session_of globals method url kwargs = (Inl e, []))
        \<and> (\<forall>msg. e \<noteq> AirflowException msg))
   \<or> (\<exists>sess params data headers.
         \<forall>method. ApiClient_request session_of globals method url kwargs
           = (sess (Call_request method url params data headers kwargs),
              [Call_request method url params data headers kwargs]))"
proof -
  let ?l = "\<lambda>mth. [(''method'', mth), (''url'', url), (''kwargs'', PDict kwargs)]"
  have nm [simp]: "lookup_name (?l mth) globals ''method'' = Inr mth"
    "lookup_name (?l mth) globals ''url'' = Inr url"
    "lookup_name (?l mth) globals ''kwargs'' = Inr (PDict kwargs)" for mth
    by (simp_all add: lookup_name_def)
  have other: "lookup_name (?l mth) globals n = lookup_name [] globals n"
    if "n \<noteq> ''method''" "n \<noteq> ''url''" "n \<noteq> ''kwargs''" for mth n
    using that by (simp add: lookup_name_def)
  have o [simp]: "lookup_name (?l mth) globals ''self'' = lookup_name [] globals ''self''"
    "lookup_name (?l mth) globals ''params'' = lookup_name [] globals ''params''"
    "lookup_name (?l mth) globals ''data'' = lookup_name [] globals ''data''"
    "lookup_name (?l mth) globals ''headers'' = lookup_name [] globals ''headers''" for mth
    by (simp_all add: other)
  have nameerr: "lookup_name [] globals n = Inl e \<Longrightarrow> e = NameError n" for n e
    by (auto simp: lookup_name_def split: option.splits)
  show ?thesis
  proof (cases "lookup_name [] globals ''self''")
    case (Inl e)
    then show ?thesis using nameerr [OF Inl] by (auto simp: ApiClient_request_def)
  next
    case self: (Inr self)
    show ?thesis
    proof (cases "session_of self")
      case None
      with self show ?thesis by (auto simp: ApiClient_request_def)
    next
      case sess: (Some sess)
      show ?thesis
      proof (cases "lookup_name [] globals ''params''")
        case (Inl e)
        with self sess show ?thesis using nameerr [OF Inl] by (auto simp: ApiClient_request_def)
      next
        case params: (Inr params)
        show ?thesis
        proof (cases "lookup_name [] globals ''data''")
          case (Inl e)
          with self sess params show ?thesis
            using nameerr [OF Inl] by (auto simp: ApiClient_request_def)
        next
          case data: (Inr data)
          show ?thesis
          proof (cases "lookup_name [] globals ''headers''")
            case (Inl e)
            with self sess params data show ?thesis
              using nameerr [OF Inl] by (auto simp: ApiClient_request_def)
          next
            case headers: (Inr headers)
            show ?thesis
            proof (cases "''params'' \<in> set (map fst kwargs) \<or> ''data'' \<in> set (map fst kwargs)
                          \<or> ''headers'' \<in> set (map fst kwargs)")
              case True
              with self sess params data headers show ?thesis
                by (auto simp: ApiClient_request_def)
            next
              case False
              with self sess params data headers
              have "\<forall>method. ApiClient_request session_of globals method url kwargs
                      = (sess (Call_request method url params data headers kwargs),
                         [Call_request method url params data headers kwargs])"
                by (simp add: ApiClient_request_def)
              then show ?thesis by blast
            qed
          qed
        qed
      qed
    qed
  qed
qed

lemma attempt_cases:
  "(\<exists>e. (\<forall>method. attempt_request session_of globals via [method, url] named = (Inl e, []))
        \<and> (\<forall>msg. e \<noteq> AirflowException msg))
   \<or> (\<exists>sess params data headers kwargs.
         \<forall>method. attempt_request session_of globals via [method, url] named
           = (sess (Call_request method url params data headers kwargs),
              [Call_request method url params data headers kwargs]))"
proof (cases "ApiClient_class_statement globals")
  case (Inl e)
  then have "e = NameError ''logging''"
    by (auto simp: ApiClient_class_statement_def lookup_name_def split: option.splits)
  with Inl show ?thesis by (auto simp: attempt_request_def)
next
  case cls: (Inr u)
  show ?thesis
  proof (cases via)
    case Through_instance
    with cls show ?thesis
      by (auto simp: attempt_request_def request_call_def bind_request_def)
  next
    case Through_class
    show ?thesis
    proof (cases "''method'' \<in> set (map fst named) \<or> ''url'' \<in> set (map fst named)")
      case True
      with cls Through_class show ?thesis
        by (auto simp: attempt_request_def request_call_def bind_request_def)
    next
      case False
      then have b: "bind_request [mth, url] named
                      = Inr (mth, url,
                             filter (\<lambda>(k, v). k \<noteq> ''method'' \<and> k \<noteq> ''url'') named)" for mth
        by (simp add: bind_request_def)
      have eq: "attempt_request session_of globals via [mth, url] named
              = ApiClient_request session_of globals mth url
                  (filter (\<lambda>(k, v). k \<noteq> ''method'' \<and> k \<noteq> ''url'') named)" for mth
        using cls Through_class by (simp add: attempt_request_def request_call_def b)
      show ?thesis
        using body_cases [of session_of globals url
            "filter (\<lambda>(k, v). k \<noteq> ''method'' \<and> k \<noteq> ''url'') named"]
        unfolding eq by blast
    qed
  qed
qed

text \<open>
  C8 as stated fails: \<^verbatim>\<open>ApiClient.request("OPTIONS", url)\<close> in the module as written is not
  rejected with the configuration error \<^verbatim>\<open>AirflowException\<close>; what is raised is a
  \<^verbatim>\<open>NameError\<close>.
\<close>

theorem request_options_not_configuration_error:
  "attempt_request no_session_of module_globals Through_class
     [PStr ''OPTIONS'', PStr ''https://api.pagerduty.com/incidents''] []
     = (Inl (NameError ''logging''), [])"
  by (rule attempt_in_module)

text \<open>
  C8, amended. \<^verbatim>\<open>request\<close> makes no difference between methods, permitted or not: it
  never compares its method with \<^verbatim>\<open>permitted_methods\<close>. For every url and options, a call
  with one method is delegated to the Session exactly if the call with any other method
  is; a call that is delegated passes its method on unchanged; and a call that is not
  delegated does not fail with \<^verbatim>\<open>AirflowException\<close>.
\<close>

theorem request_has_no_method_check:
  "(snd (attempt_request session_of globals via [method, url] named) = []
      \<longrightarrow> (\<forall>msg. fst (attempt_request session_of globals via [method, url] named)
                    \<noteq> Inl (AirflowException msg)))
   \<and> ((snd (attempt_request session_of globals via [method, url] named) = [])
        = (snd (attempt_request session_of globals via [other, url] named) = []))
   \<and> (snd (attempt_request session_of globals via [method, url] named) = []
        \<or> (\<exists>params data headers kwargs.
              snd (attempt_request session_of globals via [method, url] named)
                = [Call_request method url params data headers kwargs]))"
  using attempt_cases [where session_of = session_of and globals = globals and via = via
      and url = url and named = named]
  by (elim disjE exE conjE) simp_all

theorem request_has_no_method_check_witness:
  "''OPTIONS'' \<notin> set permitted_methods
   \<and> snd (attempt_request no_session_of module_globals Through_class
            [PStr ''OPTIONS'', PStr ''/incidents''] []) = []
   \<and> fst (attempt_request no_session_of module_globals Through_class
            [PStr ''OPTIONS'', PStr ''/incidents''] []) \<noteq> Inl (AirflowException ''rejected'')
   \<and> attempt_request answering_session_of bound_scope Through_class
        [PStr ''OPTIONS'', PStr ''/incidents''] []
       = (Inr (PDict [(''event'', PDict [(''id'', PStr ''E1'')])]),
          [Call_request (PStr ''OPTIONS'') (PStr ''/incidents'') PNone PNone (PDict []) []])
   \<and> snd (attempt_request answering_session_of bound_scope Through_class
            [PStr ''GET'', PStr ''/incidents''] []) \<noteq> []"
proof -
  have p: "''OPTIONS'' \<notin> set permitted_methods"
    by (simp add: permitted_methods_def)
  have a: "snd (attempt_request no_session_of module_globals Through_class
                  [PStr ''OPTIONS'', PStr ''/incidents''] []) = []"
    by (simp add: attempt_in_module)
  have b: "fst (attempt_request no_session_of module_globals Through_class
                  [PStr ''OPTIONS'', PStr ''/incidents''] []) \<noteq> Inl (AirflowException ''rejected'')"
    using a request_has_no_method_check
      [of no_session_of module_globals Through_class "PStr ''OPTIONS''" "PStr ''/incidents''" "[]"]
    by blast
  have cls: "ApiClient_class_statement bound_scope = Inr ()"
    by (simp add: ApiClient_class_statement_def ApiClient_class_namespace_def lookup_name_def
        bound_scope_def module_globals_def)
  have c: "attempt_request answering_session_of bound_scope Through_class
             [PStr ''OPTIONS'', PStr ''/incidents''] []
           = (Inr (PDict [(''event'', PDict [(''id'', PStr ''E1'')])]),
              [Call_request (PStr ''OPTIONS'') (PStr ''/incidents'') PNone PNone (PDict []) []])"
  proof -
    have "attempt_request answering_session_of bound_scope Through_class
             [PStr ''OPTIONS'', PStr ''/incidents''] []
          = request_call answering_session_of bound_scope Through_class
             [PStr ''OPTIONS'', PStr ''/incidents''] []"
      by (simp add: attempt_request_def cls)
    also have "\<dots> = (Inr (PDict [(''event'', PDict [(''id'', PStr ''E1'')])]),
              [Call_request (PStr ''OPTIONS'') (PStr ''/incidents'') PNone PNone (PDict []) []])"
      by (simp add: request_call_def bind_request_def
          ApiClient_request_def lookup_name_def bound_scope_def module_globals_def
          answering_session_of_def answering_session_def)
    finally show ?thesis .
  qed
  have d: "snd (attempt_request answering_session_of bound_scope Through_class
                  [PStr ''GET'', PStr ''/incidents''] []) \<noteq> []"
    using c request_has_no_method_check
      [of answering_session_of bound_scope Through_class "PStr ''OPTIONS''" "PStr ''/incidents''"
          "[]" "PStr ''GET''"]
    by simp
  from p a b c d show ?thesis by blast
qed



section \<open>The session of an \<^verbatim>\<open>EventsAPiV2Client\<close>\<close>

lemma run_eq:
  "run lib extra pb self xs = (map (\<lambda>x. fst (exec_op lib extra pb self x)) xs, self)"
proof (induction xs)
  case Nil
  show ?case by simp
next
  case (Cons x xs)
  have "snd (exec_op lib extra pb self x) = self" by (cases x) simp_all
  with Cons show ?case by (simp add: Let_def split_def)
qed

lemma session_call_None:
  "priv_session self = None \<Longrightarrow>
   session_call self name c = (Inl (AttributeError ''NoneType'' name), [])"
  by (simp add: session_call_def)

lemma post_event_without_session:
  "priv_session self = None \<Longrightarrow>
   post_event lib self payload = (Inl (no_session_error lib ''post_event''), [])"
  by (simp add: post_event_def session_call_None translate_no_session)

lemma send_event_without_session:
  "priv_session self = None \<Longrightarrow> snd (send_event lib extra pb self kwargs) = []"
  by (simp add: send_event_def post_event_without_session split: sum.splits)

lemma exec_op_without_session:
  assumes "priv_session self = None"
  shows "snd (fst (exec_op lib extra pb self x)) = []"
    and "session_method x = Some n \<Longrightarrow>
         fst (fst (exec_op lib extra pb self x)) = Inl (no_session_error lib n)"
proof -
  note defs = acknowledge_event_def resolve_event_def send_change_event_def
    post_event_without_session [OF assms] session_call_None [OF assms] translate_no_session
  show "snd (fst (exec_op lib extra pb self x)) = []"
  proof (cases x)
    case (Op_send_event a)
    then show ?thesis by (simp add: send_event_without_session [OF assms])
  next
    case (Op_submit_event a)
    then show ?thesis
      by (simp add: submit_event_def lookup_send_event send_event_without_session [OF assms])
  next
    case (Op_trigger_event a)
    then show ?thesis
      by (simp add: trigger_event_def lookup_send_event send_event_without_session [OF assms])
  qed (simp_all add: defs)
  show "fst (fst (exec_op lib extra pb self x)) = Inl (no_session_error lib n)"
    if "session_method x = Some n"
    using that by (cases x) (auto simp: defs)
qed

text \<open>
  C9. For every successfully constructed \<^verbatim>\<open>EventsAPiV2Client\<close> and every sequence of its
  public operations, \<^verbatim>\<open>_session\<close> is \<^verbatim>\<open>None\<close> after construction and after the sequence, no
  operation of the sequence sends a call to the library, and each \<^verbatim>\<open>post_event\<close>,
  \<^verbatim>\<open>acknowledge_event\<close>, \<^verbatim>\<open>resolve_event\<close> and \<^verbatim>\<open>send_change_event\<close> in it fails with an
  \<^verbatim>\<open>AttributeError\<close>: that of looking the library method up on \<^verbatim>\<open>None\<close> if the library has
  the class the \<^verbatim>\<open>except\<close> clause names, and otherwise that of looking up this class.
\<close>

theorem session_stays_None:
  assumes "EventsAPiV2Client_init store key conn_id = Inr self"
  shows "priv_session self = None
         \<and> priv_session (snd (run lib extra pb self ops)) = None
         \<and> length (fst (run lib extra pb self ops)) = length ops
         \<and> (\<forall>i < length ops.
               snd (fst (run lib extra pb self ops) ! i) = []
               \<and> (\<forall>n. session_method (ops ! i) = Some n \<longrightarrow>
                      fst (fst (run lib extra pb self ops) ! i) = Inl (no_session_error lib n)))"
proof -
  have none: "priv_session self = None"
    using assms init_body_result [of "''EventsAPiV2Client''" EventsAPiV2Client_attrs store key conn_id self]
    by (simp add: EventsAPiV2Client_init_def)
  then show ?thesis
    by (simp add: run_eq exec_op_without_session)
qed

theorem session_stays_None_witness:
  "EventsAPiV2Client_init one_connection (Some ''k'') None
     = Inr \<lparr>integration_key = Some ''k'', priv_session = None\<rparr>
   \<and> priv_session (snd (run pagerduty_exports [] flat_payload
        \<lparr>integration_key = Some ''k'', priv_session = None\<rparr>
        [Op_post_event (PDict []), Op_acknowledge_event ''E1'', Op_prepare_headers,
         Op_resolve_event ''E1'', Op_send_change_event (PDict []) None None])) = None
   \<and> fst (run pagerduty_exports [] flat_payload
        \<lparr>integration_key = Some ''k'', priv_session = None\<rparr>
        [Op_post_event (PDict []), Op_acknowledge_event ''E1'', Op_prepare_headers,
         Op_resolve_event ''E1'', Op_send_change_event (PDict []) None None]) ! 0
       = (Inl (AttributeError ''module'' ''PagerDutyError''), [])
   \<and> fst (run pagerduty_exports [] flat_payload
        \<lparr>integration_key = Some ''k'', priv_session = None\<rparr>
        [Op_post_event (PDict []), Op_acknowledge_event ''E1'', Op_prepare_headers,
         Op_resolve_event ''E1'', Op_send_change_event (PDict []) None None]) ! 4
       = (Inl (AttributeError ''module'' ''PagerDutyError''), [])"
proof -
  let ?self = "\<lparr>integration_key = Some ''k'', priv_session = None\<rparr>"
  let ?ops = "[Op_post_event (PDict []), Op_acknowledge_event ''E1'', Op_prepare_headers,
               Op_resolve_event ''E1'', Op_send_change_event (PDict []) None None]"
  let ?outs = "fst (run pagerduty_exports [] flat_payload ?self ?ops)"
  have h: "EventsAPiV2Client_init one_connection (Some ''k'') None = Inr ?self"
    by (simp add: EventsAPiV2Client_init_def init_body_explicit_only)
  have err: "no_session_error pagerduty_exports n = AttributeError ''module'' ''PagerDutyError''" for n
    by (simp add: no_session_error_def pagerduty_exports_def)
  note inst = session_stays_None [OF h, of pagerduty_exports "[]" flat_payload ?ops]
  from inst have fin: "priv_session (snd (run pagerduty_exports [] flat_payload ?self ?ops)) = None"
    by blast
  from inst have each: "\<forall>i < length ?ops.
      snd (?outs ! i) = []
      \<and> (\<forall>n. session_method (?ops ! i) = Some n \<longrightarrow>
             fst (?outs ! i) = Inl (no_session_error pagerduty_exports n))"
    by blast
  have "snd (?outs ! 0) = []
        \<and> fst (?outs ! 0) = Inl (AttributeError ''module'' ''PagerDutyError'')"
    using each [rule_format, of 0] by (simp add: err)
  then have first: "?outs ! 0 = (Inl (AttributeError ''module'' ''PagerDutyError''), [])"
    by (simp add: prod_eq_iff)
  have "snd (?outs ! 4) = []
        \<and> fst (?outs ! 4) = Inl (AttributeError ''module'' ''PagerDutyError'')"
    using each [rule_format, of 4] by (simp add: err)
  then have last: "?outs ! 4 = (Inl (AttributeError ''module'' ''PagerDutyError''), [])"
    by (simp add: prod_eq_iff)
  from h fin first last show ?thesis by blast
qed

end
